theory Spec2Isabelle
  imports Complex_Main "HOL-Library.Word" "HOL-Library.Sublist"
begin

section \<open>The Livepeer inference adapter of \<^verbatim>\<open>src/index.ts\<close>\<close>

text \<open>
  The plugin registers three model handlers: \<^verbatim>\<open>TEXT_SMALL\<close> and \<^verbatim>\<open>TEXT_LARGE\<close>, which both
  call \<^verbatim>\<open>callLivepeerLLM\<close> (the specification's \<^verbatim>\<open>generate\<close>), and \<^verbatim>\<open>TEXT_EMBEDDING\<close> (the
  specification's \<^verbatim>\<open>embed\<close>). Everything the handlers read is an argument of the model: the
  process environment, the host runtime (its settings, its persona text and its \<^verbatim>\<open>fetch\<close>)
  and the two JavaScript built-ins \<^verbatim>\<open>parseInt\<close> and \<^verbatim>\<open>parseFloat\<close>. The one effect, the
  HTTP request, is recorded: a call returns its outcome together with the list of requests
  it handed to \<^verbatim>\<open>fetch\<close>. Logging has no effect on the outcome and is left out.
\<close>

subsection \<open>JavaScript values\<close>

text \<open>
  A JavaScript number is an IEEE double: \<open>Num r\<close> is the finite double whose exact value is
  the rational \<open>r\<close> (both zeros are \<open>Num 0\<close>). The generation path never computes with
  numbers, it only tests them for truthiness and passes them on.
\<close>

datatype jsnum = NaN | PosInfinity | NegInfinity | Num rat

fun truthy_num :: "jsnum \<Rightarrow> bool" where
  "truthy_num NaN = False"
| "truthy_num PosInfinity = True"
| "truthy_num NegInfinity = True"
| "truthy_num (Num r) = (r \<noteq> 0)"

text \<open>The double written \<^verbatim>\<open>0.6\<close> in the source: mantissa \<open>0x13333333333333\<close>, exponent \<open>-53\<close>.\<close>

definition double_0_6 :: rat where
  "double_0_6 = 5404319552844595 / 2 ^ 53"

text \<open>
  A value that may be \<^verbatim>\<open>undefined\<close> is an option. \<open>a || b\<close> yields \<open>a\<close> when \<open>a\<close> is truthy
  and \<open>b\<close> otherwise; the empty string, \<open>0\<close>, \<open>NaN\<close>, \<^verbatim>\<open>null\<close> and \<^verbatim>\<open>undefined\<close> are falsy.
\<close>

fun truthy_str :: "string option \<Rightarrow> bool" where
  "truthy_str None = False"
| "truthy_str (Some s) = (s \<noteq> [])"

definition str_or :: "string option \<Rightarrow> string option \<Rightarrow> string option" where
  "str_or a b = (if truthy_str a then a else b)"

fun num_or :: "jsnum option \<Rightarrow> jsnum \<Rightarrow> jsnum" where
  "num_or None d = d"
| "num_or (Some n) d = (if truthy_num n then n else d)"

text \<open>\<^verbatim>\<open>process.env.X ? parse(process.env.X) : d\<close>\<close>

fun env_or_default :: "(string \<Rightarrow> jsnum) \<Rightarrow> string option \<Rightarrow> jsnum \<Rightarrow> jsnum" where
  "env_or_default parse None d = d"
| "env_or_default parse (Some s) d = (if s \<noteq> [] then parse s else d)"

record builtins =
  parseInt :: "string \<Rightarrow> jsnum"
  parseFloat :: "string \<Rightarrow> jsnum"

type_synonym env = "string \<rightharpoonup> string"

subsection \<open>Parsed JSON and optional chaining\<close>

text \<open>
  The value \<^verbatim>\<open>res.json()\<close> resolves to. An object is the list of its members, looked up by
  key. \<open>None\<close> is \<^verbatim>\<open>undefined\<close>.
\<close>

datatype json =
    JNull
  | JBool bool
  | JNumber jsnum
  | JString string
  | JArray "json list"
  | JObject "(string \<times> json) list"

text \<open>
  \<open>v?.name\<close> for the names the adapter reads (\<^verbatim>\<open>choices\<close>, \<^verbatim>\<open>message\<close>, \<^verbatim>\<open>delta\<close>,
  \<^verbatim>\<open>content\<close>): only an object can have such a member; \<^verbatim>\<open>null\<close> and \<^verbatim>\<open>undefined\<close> short-circuit,
  arrays, strings, numbers and booleans have no property of these names.
\<close>

fun member :: "string \<Rightarrow> json option \<Rightarrow> json option" where
  "member name (Some (JObject kvs)) = map_of kvs name"
| "member name (Some JNull) = None"
| "member name (Some (JBool b)) = None"
| "member name (Some (JNumber n)) = None"
| "member name (Some (JString s)) = None"
| "member name (Some (JArray xs)) = None"
| "member name None = None"

text \<open>\<open>v?.[0]\<close>: the first element of an array, the member \<^verbatim>\<open>"0"\<close> of an object, the first
  character of a string.\<close>

fun index0 :: "json option \<Rightarrow> json option" where
  "index0 (Some (JArray xs)) = (case xs of [] \<Rightarrow> None | x # _ \<Rightarrow> Some x)"
| "index0 (Some (JObject kvs)) = map_of kvs ''0''"
| "index0 (Some (JString s)) = (case s of [] \<Rightarrow> None | c # _ \<Rightarrow> Some (JString [c]))"
| "index0 (Some JNull) = None"
| "index0 (Some (JBool b)) = None"
| "index0 (Some (JNumber n)) = None"
| "index0 None = None"

fun truthy :: "json option \<Rightarrow> bool" where
  "truthy None = False"
| "truthy (Some JNull) = False"
| "truthy (Some (JBool b)) = b"
| "truthy (Some (JNumber n)) = truthy_num n"
| "truthy (Some (JString s)) = (s \<noteq> [])"
| "truthy (Some (JArray xs)) = True"
| "truthy (Some (JObject kvs)) = True"

subsection \<open>Strings\<close>

text \<open>
  \<^verbatim>\<open>endpoint.replace(/\/$/, '')\<close>: without the \<^verbatim>\<open>m\<close> flag \<^verbatim>\<open>$\<close> matches at the end of the
  string only, so one final slash is removed when there is one.
\<close>

definition strip_trailing_slash :: "string \<Rightarrow> string" where
  "strip_trailing_slash s = (if s \<noteq> [] \<and> last s = CHR ''/'' then butlast s else s)"

text \<open>
  \<^verbatim>\<open>s.replace(/pat/, '')\<close> for a pattern of literal characters, with neither anchor nor
  \<^verbatim>\<open>g\<close> flag: the leftmost occurrence of \<open>pat\<close> is removed.
\<close>

fun remove_first :: "string \<Rightarrow> string \<Rightarrow> string" where
  "remove_first pat [] = []"
| "remove_first pat (c # cs) =
     (if prefix pat (c # cs) then drop (length pat) (c # cs) else c # remove_first pat cs)"

definition marker :: string where
  "marker = ''<|start_header_id|>assistant<|end_header_id|>'' @ [CHR 0x0A, CHR 0x0A]"

text \<open>The decimal digits of a number, as the template literal \<^verbatim>\<open>${res.status}\<close> prints them.\<close>

definition digit :: "nat \<Rightarrow> char" where
  "digit d = ''0123456789'' ! d"

function to_string :: "nat \<Rightarrow> string" where
  "to_string n = (if n < 10 then [digit n] else to_string (n div 10) @ [digit (n mod 10)])"
  by pat_completeness auto
termination
  by (relation "measure id") auto

declare to_string.simps [simp del]

subsection \<open>Requests, responses and the host runtime\<close>

datatype role = System | User

record message =
  role :: role
  content :: string

record request_body =
  body_model :: string
  body_messages :: "message list"
  body_max_tokens :: jsnum
  body_temperature :: jsnum
  body_stream :: bool

text \<open>The body is kept as the object handed to \<^verbatim>\<open>JSON.stringify\<close>.\<close>

record request =
  url :: string
  http_method :: string
  headers :: "(string \<times> string) list"
  body :: request_body

record response =
  ok :: bool
  status :: nat
  statusText :: string
  text_body :: string
  json_body :: "json option"

text \<open>
  \<open>text_body\<close> is what \<^verbatim>\<open>res.text()\<close> resolves to and \<open>json_body\<close> what \<^verbatim>\<open>res.json()\<close>
  resolves to, \<open>None\<close> when it rejects because the body is not JSON. \<^verbatim>\<open>fetch\<close> itself may
  reject.
\<close>

datatype fetch_outcome = Rejected | Resolved response

record runtime =
  getSetting :: "string \<rightharpoonup> string"
  character_system :: "string option"
  fetch :: "request \<Rightarrow> fetch_outcome"

text \<open>
  The exceptions a call can end with: the three \<^verbatim>\<open>new Error(message)\<close> of the source, the
  \<^verbatim>\<open>TypeError\<close> of calling \<^verbatim>\<open>.replace\<close> on a truthy content that is not a string, and the
  rejections of \<^verbatim>\<open>fetch\<close> and \<^verbatim>\<open>res.json()\<close>, which the source lets through.
\<close>

datatype error = Error string | TypeError | JsonRejected | FetchRejected

text \<open>
  The parameter object. The handlers and \<^verbatim>\<open>callLivepeerLLM\<close> destructure \<^verbatim>\<open>prompt\<close>,
  \<^verbatim>\<open>maxTokens\<close> and \<^verbatim>\<open>temperature\<close> and read nothing else of it, so they accept every
  extension of this record.
\<close>

record llm_params =
  prompt :: string
  maxTokens :: "jsnum option"
  temperature :: "jsnum option"

subsection \<open>\<^verbatim>\<open>callLivepeerLLM\<close>\<close>

text \<open>Lines 42-43.\<close>

definition resolve_endpoint :: "env \<Rightarrow> runtime \<Rightarrow> string option" where
  "resolve_endpoint env rt =
     str_or (env ''LIVEPEER_GATEWAY_URL'') (getSetting rt ''LIVEPEER_GATEWAY_URL'')"

text \<open>Lines 51-54.\<close>

definition resolve_model :: "env \<Rightarrow> string" where
  "resolve_model env =
     (case str_or (env ''LIVEPEER_LARGE_MODEL'')
             (str_or (env ''LIVEPEER_MODEL'') (Some ''meta-llama/Meta-Llama-3.1-8B-Instruct'')) of
        Some m \<Rightarrow> m
      | None \<Rightarrow> [])"

text \<open>Lines 91-93.\<close>

definition authorization :: "env \<Rightarrow> runtime \<Rightarrow> string" where
  "authorization env rt =
     ''Bearer '' @
     (case str_or (env ''LIVEPEER_API_KEY'')
             (str_or (getSetting rt ''LIVEPEER_API_KEY'') (Some ''ElizaV2-llm-default'')) of
        Some k \<Rightarrow> k
      | None \<Rightarrow> [])"

text \<open>Lines 65-82.\<close>

definition requestBody :: "env \<Rightarrow> runtime \<Rightarrow> string \<Rightarrow> jsnum \<Rightarrow> jsnum \<Rightarrow> request_body" where
  "requestBody env rt p mt temp =
     \<lparr> body_model = resolve_model env,
       body_messages =
         [ \<lparr> role = System,
             content =
               (case str_or (character_system rt)
                       (Some ''You are a helpful assistant powered by Livepeer Gateway'') of
                  Some s \<Rightarrow> s
                | None \<Rightarrow> []) \<rparr>,
           \<lparr> role = User, content = p \<rparr> ],
       body_max_tokens = mt,
       body_temperature = temp,
       body_stream = False \<rparr>"

text \<open>Lines 116-131.\<close>

definition message_content :: "json \<Rightarrow> json option" where
  "message_content j = member ''content'' (member ''message'' (index0 (member ''choices'' (Some j))))"

definition delta_content :: "json \<Rightarrow> json option" where
  "delta_content j = member ''content'' (member ''delta'' (index0 (member ''choices'' (Some j))))"

definition extract_content :: "json \<Rightarrow> error + string" where
  "extract_content j =
     (let content0 = message_content j;
          content1 = (if \<not> truthy content0 \<and> truthy (delta_content j)
                      then delta_content j else content0)
      in if \<not> truthy content1 then Inl (Error ''Invalid response format from Livepeer'')
         else (case content1 of
                 Some (JString s) \<Rightarrow> Inr (remove_first marker s)
               | _ \<Rightarrow> Inl TypeError))"

text \<open>Lines 86-96: the request handed to \<^verbatim>\<open>runtime.fetch\<close>.\<close>

definition build_request :: "env \<Rightarrow> runtime \<Rightarrow> string \<Rightarrow> request_body \<Rightarrow> request" where
  "build_request env rt endpoint b =
     \<lparr> url = strip_trailing_slash endpoint @ ''/llm'',
       http_method = ''POST'',
       headers = [(''accept'', ''application/json''),
                  (''Content-Type'', ''application/json''),
                  (''Authorization'', authorization env rt)],
       body = b \<rparr>"

text \<open>Lines 98-131: what becomes of the response.\<close>

definition handle_response :: "response \<Rightarrow> error + string" where
  "handle_response res =
     (if \<not> ok res
      then Inl (Error (''Livepeer request failed ('' @ to_string (status res) @ ''): ''
                       @ text_body res))
      else (case json_body res of
              None \<Rightarrow> Inl JsonRejected
            | Some j \<Rightarrow> extract_content j))"

text \<open>
  The whole function. The default values of \<^verbatim>\<open>maxTokens\<close> and \<^verbatim>\<open>temperature\<close> (lines 36-37)
  apply when the field is \<^verbatim>\<open>undefined\<close>. \<^verbatim>\<open>!endpoint\<close> (lines 45-47) holds of \<^verbatim>\<open>undefined\<close> and
  of the empty string.
\<close>

definition callLivepeerLLM ::
  "builtins \<Rightarrow> env \<Rightarrow> runtime \<Rightarrow> 'a llm_params_scheme \<Rightarrow> (error + string) \<times> request list" where
  "callLivepeerLLM js env rt params =
     (let mt = (case maxTokens params of
                  None \<Rightarrow> env_or_default (parseInt js) (env ''LIVEPEER_MAX_TOKENS'') (Num 2048)
                | Some m \<Rightarrow> m);
          temp = (case temperature params of
                    None \<Rightarrow> env_or_default (parseFloat js) (env ''LIVEPEER_TEMPERATURE'')
                              (Num double_0_6)
                  | Some t \<Rightarrow> t)
      in case resolve_endpoint env rt of
           None \<Rightarrow> (Inl (Error ''Livepeer Gateway URL is not defined (LIVEPEER_GATEWAY_URL)''), [])
         | Some endpoint \<Rightarrow>
             if endpoint = []
             then (Inl (Error ''Livepeer Gateway URL is not defined (LIVEPEER_GATEWAY_URL)''), [])
             else
               (let req = build_request env rt endpoint
                            (requestBody env rt (prompt params) mt temp)
                in case fetch rt req of
                     Rejected \<Rightarrow> (Inl FetchRejected, [req])
                   | Resolved res \<Rightarrow> (handle_response res, [req])))"

subsection \<open>The text handlers (lines 171-190)\<close>

definition TEXT_SMALL ::
  "builtins \<Rightarrow> env \<Rightarrow> runtime \<Rightarrow> 'a llm_params_scheme \<Rightarrow> (error + string) \<times> request list" where
  "TEXT_SMALL js env rt params =
     callLivepeerLLM js env rt
       \<lparr> prompt = prompt params,
         maxTokens = Some (num_or (maxTokens params)
                       (env_or_default (parseInt js) (env ''LIVEPEER_MAX_TOKENS'') (Num 512))),
         temperature = Some (num_or (temperature params)
                         (env_or_default (parseFloat js) (env ''LIVEPEER_TEMPERATURE'')
                            (Num double_0_6))) \<rparr>"

definition TEXT_LARGE ::
  "builtins \<Rightarrow> env \<Rightarrow> runtime \<Rightarrow> 'a llm_params_scheme \<Rightarrow> (error + string) \<times> request list" where
  "TEXT_LARGE js env rt params =
     callLivepeerLLM js env rt
       \<lparr> prompt = prompt params,
         maxTokens = Some (num_or (maxTokens params)
                       (env_or_default (parseInt js) (env ''LIVEPEER_MAX_TOKENS'') (Num 2048))),
         temperature = Some (num_or (temperature params)
                         (env_or_default (parseFloat js) (env ''LIVEPEER_TEMPERATURE'')
                            (Num double_0_6))) \<rparr>"

text \<open>
  A parameter object may hold more than the three fields the handlers read, for instance a
  gateway URL of its own.
\<close>

record explicit_params = llm_params +
  gatewayUrl :: string

subsection \<open>The embedding placeholder (lines 191-211)\<close>

text \<open>
  A JavaScript string is a sequence of 16-bit code units; \<^verbatim>\<open>length\<close> counts them and
  \<^verbatim>\<open>charCodeAt\<close> reads one. The argument is \<^verbatim>\<open>null\<close>, a string, or an object whose \<^verbatim>\<open>text\<close>
  member is missing, nullish or a string.
\<close>

type_synonym utf16 = "16 word list"

datatype text_member = NoText | NullishText | TextOf utf16

datatype embedding_params = ParamsNull | ParamsString utf16 | ParamsObject text_member

text \<open>What \<^verbatim>\<open>trim\<close> removes from both ends: ECMAScript white space and line terminators.\<close>

definition is_space :: "16 word \<Rightarrow> bool" where
  "is_space c =
     (c \<in> set [0x0009, 0x000A, 0x000B, 0x000C, 0x000D, 0x0020, 0x00A0, 0x1680,
               0x2000, 0x2001, 0x2002, 0x2003, 0x2004, 0x2005, 0x2006, 0x2007, 0x2008,
               0x2009, 0x200A, 0x2028, 0x2029, 0x202F, 0x205F, 0x3000, 0xFEFF])"

definition trim :: "utf16 \<Rightarrow> utf16" where
  "trim s = rev (dropWhile is_space (rev (dropWhile is_space s)))"

definition DIMS :: nat where
  "DIMS = 384"

text \<open>
  The entries are doubles and the loop adds to them, so rounding matters. The arithmetic is
  left uninterpreted: the entries have any type with a \<open>0\<close>, a \<open>+\<close> and a \<open>/\<close>, of which no
  law is assumed, and \<open>num\<close> is the number of an integer. What is proved of the loop then
  holds of the doubles, operation for operation.
\<close>

function embed_loop ::
  "(nat \<Rightarrow> 'a) \<Rightarrow> utf16 \<Rightarrow> nat \<Rightarrow> 'a::{zero,plus,inverse} list \<Rightarrow> 'a list" where
  "embed_loop num text i vec =
     (if i < length text
      then (let idx = i mod DIMS
            in embed_loop num text (i + 1)
                 (vec[idx := vec ! idx + num (unat (text ! i)) / num 65535]))
      else vec)"
  by pat_completeness auto
termination
  by (relation "measure (\<lambda>(num, text, i, vec). length text - i)") auto

declare embed_loop.simps [simp del]

text \<open>\<^verbatim>\<open>!params\<close>: \<^verbatim>\<open>null\<close> and the empty string are falsy, every object is truthy.\<close>

fun falsy_params :: "embedding_params \<Rightarrow> bool" where
  "falsy_params ParamsNull = True"
| "falsy_params (ParamsString s) = (s = [])"
| "falsy_params (ParamsObject m) = False"

text \<open>\<^verbatim>\<open>typeof params === 'object' && !('text' in params)\<close>, evaluated for a truthy argument.\<close>

fun lacks_text :: "embedding_params \<Rightarrow> bool" where
  "lacks_text (ParamsObject NoText) = True"
| "lacks_text (ParamsObject NullishText) = False"
| "lacks_text (ParamsObject (TextOf s)) = False"
| "lacks_text (ParamsString s) = False"
| "lacks_text ParamsNull = False"

text \<open>\<^verbatim>\<open>typeof params === 'string' ? params : params.text ?? ''\<close>\<close>

fun text_of :: "embedding_params \<Rightarrow> utf16" where
  "text_of (ParamsString s) = s"
| "text_of (ParamsObject (TextOf s)) = s"
| "text_of (ParamsObject NullishText) = []"
| "text_of (ParamsObject NoText) = []"
| "text_of ParamsNull = []"

definition TEXT_EMBEDDING ::
  "(nat \<Rightarrow> 'a) \<Rightarrow> embedding_params \<Rightarrow> 'a::{zero,plus,inverse} list" where
  "TEXT_EMBEDDING num params =
     (if falsy_params params then replicate DIMS 0
      else if lacks_text params then replicate DIMS 0
      else (let text = text_of params
            in if trim text = [] then replicate DIMS 0
               else embed_loop num text 0 (replicate DIMS 0)))"

text \<open>
  The vector in the words of the specification: start from 384 zeros and, for each character
  position \<open>i\<close> of the text in turn, add \<^verbatim>\<open>charCode(i) / 65535\<close> into entry \<open>i mod 384\<close>.
\<close>

definition spec_embed :: "(nat \<Rightarrow> 'a) \<Rightarrow> utf16 \<Rightarrow> 'a::{zero,plus,inverse} list" where
  "spec_embed num text =
     foldl (\<lambda>vec i. vec[i mod 384 := vec ! (i mod 384) + num (unat (text ! i)) / num 65535])
       (replicate 384 0) [0..<length text]"

subsection \<open>Example inputs\<close>

text \<open>
  A configuration with the gateway URL in the environment and nothing else set, a runtime
  whose \<^verbatim>\<open>fetch\<close> has a fixed outcome, a prompt without further arguments, and the request
  this configuration is expected to send. No numeric variable is set in it, so the parsers
  are never applied; they answer \<open>NaN\<close>, as \<^verbatim>\<open>parseInt\<close> does on a text without digits.
\<close>

definition example_js :: builtins where
  "example_js = \<lparr> parseInt = (\<lambda>s. NaN), parseFloat = (\<lambda>s. NaN) \<rparr>"

definition example_env :: env where
  "example_env = [''LIVEPEER_GATEWAY_URL'' \<mapsto> ''https://gw.example/'']"

definition example_runtime :: "fetch_outcome \<Rightarrow> runtime" where
  "example_runtime outcome =
     \<lparr> getSetting = Map.empty, character_system = None, fetch = (\<lambda>req. outcome) \<rparr>"

definition example_params :: llm_params where
  "example_params = \<lparr> prompt = ''Hi'', maxTokens = None, temperature = None \<rparr>"

definition example_request :: "jsnum \<Rightarrow> jsnum \<Rightarrow> request" where
  "example_request mt temp =
     \<lparr> url = ''https://gw.example/llm'',
       http_method = ''POST'',
       headers = [(''accept'', ''application/json''),
                  (''Content-Type'', ''application/json''),
                  (''Authorization'', ''Bearer ElizaV2-llm-default'')],
       body = \<lparr> body_model = ''meta-llama/Meta-Llama-3.1-8B-Instruct'',
                body_messages =
                  [ \<lparr> role = System,
                      content = ''You are a helpful assistant powered by Livepeer Gateway'' \<rparr>,
                    \<lparr> role = User, content = ''Hi'' \<rparr> ],
                body_max_tokens = mt,
                body_temperature = temp,
                body_stream = False \<rparr> \<rparr>"

text \<open>A successful response whose body parses to \<open>j\<close>, and the object
  \<^verbatim>\<open>{"choices": [{...}]}\<close> with the given members of its first choice.\<close>

definition json_response :: "json \<Rightarrow> response" where
  "json_response j =
     \<lparr> ok = True, status = 200, statusText = ''OK'', text_body = [], json_body = Some j \<rparr>"

definition first_choice :: "(string \<times> json) list \<Rightarrow> json" where
  "first_choice members = JObject [(''choices'', JArray [JObject members])]"

section \<open>Properties\<close>

subsection \<open>The shape of a call\<close>

lemma call_no_endpoint:
  "\<not> truthy_str (resolve_endpoint env rt) \<Longrightarrow>
   callLivepeerLLM js env rt p =
     (Inl (Error ''Livepeer Gateway URL is not defined (LIVEPEER_GATEWAY_URL)''), [])"
  by (cases "resolve_endpoint env rt") (simp_all add: callLivepeerLLM_def Let_def)

lemma call_truncate:
  "callLivepeerLLM js env rt p = callLivepeerLLM js env rt (llm_params.truncate p)"
  by (cases "resolve_endpoint env rt") (simp_all add: callLivepeerLLM_def llm_params.defs)

lemma gen_call:
  assumes "gen \<in> {callLivepeerLLM, TEXT_SMALL, TEXT_LARGE}"
  obtains q :: llm_params where "gen js env rt p = callLivepeerLLM js env rt q"
    and "prompt q = prompt p"
proof -
  from assms consider "gen = callLivepeerLLM" | "gen = TEXT_SMALL" | "gen = TEXT_LARGE"
    by auto
  then show thesis
  proof cases
    case 1
    show thesis
    proof (rule that [of "llm_params.truncate p"])
      show "gen js env rt p = callLivepeerLLM js env rt (llm_params.truncate p)"
        unfolding 1 by (rule call_truncate)
      show "prompt (llm_params.truncate p) = prompt p"
        by (simp add: llm_params.defs)
    qed
  next
    case 2
    show thesis
      by (rule that [of "\<lparr> prompt = prompt p, maxTokens = _, temperature = _ \<rparr>"])
         (simp_all add: 2 TEXT_SMALL_def)
  next
    case 3
    show thesis
      by (rule that [of "\<lparr> prompt = prompt p, maxTokens = _, temperature = _ \<rparr>"])
         (simp_all add: 3 TEXT_LARGE_def)
  qed
qed

lemma call_sent:
  "callLivepeerLLM js env rt p =
     (case resolve_endpoint env rt of
        None \<Rightarrow> (Inl (Error ''Livepeer Gateway URL is not defined (LIVEPEER_GATEWAY_URL)''), [])
      | Some e \<Rightarrow>
          if e = [] then (Inl (Error ''Livepeer Gateway URL is not defined (LIVEPEER_GATEWAY_URL)''), [])
          else (let req = build_request env rt e (requestBody env rt (prompt p)
                     (case maxTokens p of
                        None \<Rightarrow> env_or_default (parseInt js) (env ''LIVEPEER_MAX_TOKENS'') (Num 2048)
                      | Some m \<Rightarrow> m)
                     (case temperature p of
                        None \<Rightarrow> env_or_default (parseFloat js) (env ''LIVEPEER_TEMPERATURE'') (Num double_0_6)
                      | Some t \<Rightarrow> t))
                in ((case fetch rt req of Rejected \<Rightarrow> Inl FetchRejected
                     | Resolved res \<Rightarrow> handle_response res), [req])))"
  by (simp add: callLivepeerLLM_def Let_def split: option.splits fetch_outcome.splits)

lemma call_trace:
  "snd (callLivepeerLLM js env rt p) = [req] \<Longrightarrow>
   fst (callLivepeerLLM js env rt p) =
     (case fetch rt req of Rejected \<Rightarrow> Inl FetchRejected | Resolved res \<Rightarrow> handle_response res)"
  by (auto simp: call_sent Let_def split: option.splits if_splits)

lemma gen_trace:
  assumes "gen \<in> {callLivepeerLLM, TEXT_SMALL, TEXT_LARGE}"
    and "snd (gen js env rt p) = [req]"
  shows "fst (gen js env rt p) =
     (case fetch rt req of Rejected \<Rightarrow> Inl FetchRejected | Resolved res \<Rightarrow> handle_response res)"
proof -
  obtain q :: llm_params where q: "gen js env rt p = callLivepeerLLM js env rt q"
    using gen_call [OF assms(1)] by metis
  with assms(2) show ?thesis by (simp add: call_trace)
qed

lemma call_request:
  "req \<in> set (snd (callLivepeerLLM js env rt p)) \<Longrightarrow>
   \<exists>e b. resolve_endpoint env rt = Some e \<and> e \<noteq> [] \<and> req = build_request env rt e b
     \<and> body_messages b ! 1 = \<lparr> role = User, content = prompt p \<rparr>
     \<and> snd (callLivepeerLLM js env rt p) = [req]"
  by (auto simp: call_sent Let_def requestBody_def split: option.splits if_splits)

lemma gen_request:
  assumes "gen \<in> {callLivepeerLLM, TEXT_SMALL, TEXT_LARGE}"
    and "req \<in> set (snd (gen js env rt p))"
  shows "\<exists>e b. resolve_endpoint env rt = Some e \<and> e \<noteq> [] \<and> req = build_request env rt e b
     \<and> snd (gen js env rt p) = [req]"
proof -
  obtain q :: llm_params where q: "gen js env rt p = callLivepeerLLM js env rt q"
    using gen_call [OF assms(1)] by metis
  with assms(2) have "req \<in> set (snd (callLivepeerLLM js env rt q))" by simp
  from call_request [OF this] q show ?thesis by auto
qed

lemmas example_defs = example_js_def example_env_def example_runtime_def example_params_def
  example_request_def json_response_def first_choice_def

lemma example_small_sent:
  "snd (TEXT_SMALL example_js example_env (example_runtime out) example_params) =
     [example_request (Num 512) (Num double_0_6)]"
  by (simp add: TEXT_SMALL_def call_sent example_defs resolve_endpoint_def str_or_def
      build_request_def requestBody_def strip_trailing_slash_def authorization_def
      resolve_model_def Let_def)

lemma example_large_sent:
  "snd (TEXT_LARGE example_js example_env (example_runtime out) example_params) =
     [example_request (Num 2048) (Num double_0_6)]"
  by (simp add: TEXT_LARGE_def call_sent example_defs resolve_endpoint_def str_or_def
      build_request_def requestBody_def strip_trailing_slash_def authorization_def
      resolve_model_def Let_def)

subsection \<open>Failure on a non-success status\<close>

text \<open>\<open>to_string\<close> prints a number in decimal: its characters are digits, they denote the
  number, and a positive number has no leading zero.\<close>

lemma digit_value: "d < 10 \<Longrightarrow> of_char (digit d) = (48 + d :: nat)"
proof -
  assume "d < 10"
  then have "d = 0 \<or> d = 1 \<or> d = 2 \<or> d = 3 \<or> d = 4 \<or> d = 5 \<or> d = 6 \<or> d = 7 \<or> d = 8 \<or> d = 9"
    by arith
  then show ?thesis
    by (elim disjE) (simp_all add: digit_def)
qed

lemma digit_in: "d < 10 \<Longrightarrow> digit d \<in> set ''0123456789''"
  unfolding digit_def by (rule nth_mem) simp

lemma digit_zero: "d < 10 \<Longrightarrow> digit d = CHR ''0'' \<longleftrightarrow> d = 0"
proof -
  assume d: "d < 10"
  have "of_char (digit d) = (48::nat) \<longleftrightarrow> d = 0"
    using digit_value [OF d] by simp
  moreover have "digit 0 = CHR ''0''"
    by (simp add: digit_def)
  ultimately show ?thesis by auto
qed

lemma to_string_value:
  "foldl (\<lambda>a c. 10 * a + (of_char c - 48)) 0 (to_string n) = n"
proof (induction n rule: to_string.induct)
  case (1 n)
  show ?case
  proof (cases "n < 10")
    case True
    then show ?thesis
      by (subst to_string.simps) (simp add: digit_value)
  next
    case False
    have "foldl (\<lambda>a c. 10 * a + (of_char c - 48)) 0 (to_string n)
        = 10 * foldl (\<lambda>a c. 10 * a + (of_char c - 48)) 0 (to_string (n div 10))
          + (of_char (digit (n mod 10)) - 48)"
      using False by (subst to_string.simps) simp
    also have "\<dots> = 10 * (n div 10) + n mod 10"
      using "1.IH" [OF False] by (simp add: digit_value)
    finally show ?thesis by simp
  qed
qed

lemma to_string_digits: "to_string n \<noteq> [] \<and> set (to_string n) \<subseteq> set ''0123456789''"
proof (induction n rule: to_string.induct)
  case (1 n)
  show ?case
  proof (cases "n < 10")
    case True
    then show ?thesis
      using digit_in [of n] by (subst (1 2) to_string.simps) simp
  next
    case False
    then show ?thesis
      using "1.IH" [OF False] digit_in [of "n mod 10"]
      by (subst (1 2) to_string.simps) simp
  qed
qed

lemma to_string_leading: "0 < n \<Longrightarrow> hd (to_string n) \<noteq> CHR ''0''"
proof (induction n rule: to_string.induct)
  case (1 n)
  show ?case
  proof (cases "n < 10")
    case True
    with "1.prems" show ?thesis
      by (subst to_string.simps) (simp add: digit_zero)
  next
    case False
    then have pos: "0 < n div 10" by simp
    have ne: "to_string (n div 10) \<noteq> []"
      using to_string_digits by blast
    show ?thesis
      using False "1.IH" [OF False pos] ne
      by (subst to_string.simps) simp
  qed
qed

text \<open>
  C5. Whenever the response to the request a call sent is not \<^verbatim>\<open>ok\<close>, the call ends with the
  error whose message is \<^verbatim>\<open>Livepeer request failed (\<close>, the status code, \<^verbatim>\<open>): \<close> and the body
  text of the response; it returns no value. The status code stands there in decimal: a
  non-empty run of digits that denotes the status, without a leading zero when the status is
  positive. This holds of \<^verbatim>\<open>callLivepeerLLM\<close> and of both text handlers.
\<close>

theorem non_success_status_fails:
  assumes "gen \<in> {callLivepeerLLM, TEXT_SMALL, TEXT_LARGE}"
    and "snd (gen js env rt p) = [req]"
    and "fetch rt req = Resolved res"
    and "\<not> ok res"
  shows "fst (gen js env rt p) =
           Inl (Error (''Livepeer request failed ('' @ to_string (status res) @ ''): ''
                       @ text_body res))
       \<and> to_string (status res) \<noteq> []
       \<and> set (to_string (status res)) \<subseteq> set ''0123456789''
       \<and> foldl (\<lambda>a c. 10 * a + (of_char c - 48)) 0 (to_string (status res)) = status res
       \<and> (0 < status res \<longrightarrow> hd (to_string (status res)) \<noteq> CHR ''0'')"
proof (intro conjI)
  show "fst (gen js env rt p) =
      Inl (Error (''Livepeer request failed ('' @ to_string (status res) @ ''): ''
                  @ text_body res))"
    using gen_trace [OF assms(1,2)] assms(3,4) by (simp add: handle_response_def)
  show "to_string (status res) \<noteq> []"
    using to_string_digits by blast
  show "set (to_string (status res)) \<subseteq> set ''0123456789''"
    using to_string_digits by blast
  show "foldl (\<lambda>a c. 10 * a + (of_char c - 48)) 0 (to_string (status res)) = status res"
    by (rule to_string_value)
  show "0 < status res \<longrightarrow> hd (to_string (status res)) \<noteq> CHR ''0''"
    using to_string_leading by blast
qed

theorem non_success_status_fails_witness:
  "fst (TEXT_SMALL example_js example_env
          (example_runtime (Resolved \<lparr> ok = False, status = 500,
             statusText = ''Internal Server Error'', text_body = ''boom'', json_body = None \<rparr>))
          example_params) = Inl (Error ''Livepeer request failed (500): boom'')
   \<and> fst (TEXT_LARGE example_js example_env
          (example_runtime (Resolved \<lparr> ok = False, status = 404,
             statusText = ''Not Found'', text_body = ''no such route'', json_body = None \<rparr>))
          example_params) = Inl (Error ''Livepeer request failed (404): no such route'')"
  using non_success_status_fails [of TEXT_SMALL example_js example_env
          "example_runtime (Resolved \<lparr> ok = False, status = 500,
             statusText = ''Internal Server Error'', text_body = ''boom'', json_body = None \<rparr>)"
          example_params "example_request (Num 512) (Num double_0_6)"
          "\<lparr> ok = False, status = 500,
             statusText = ''Internal Server Error'', text_body = ''boom'', json_body = None \<rparr>",
          THEN conjunct1]
    non_success_status_fails [of TEXT_LARGE example_js example_env
          "example_runtime (Resolved \<lparr> ok = False, status = 404,
             statusText = ''Not Found'', text_body = ''no such route'', json_body = None \<rparr>)"
          example_params "example_request (Num 2048) (Num double_0_6)"
          "\<lparr> ok = False, status = 404,
             statusText = ''Not Found'', text_body = ''no such route'', json_body = None \<rparr>",
          THEN conjunct1]
    example_small_sent example_large_sent
  by (simp add: example_runtime_def digit_def to_string.simps)

lemma remove_first_prefix: "pat \<noteq> [] \<Longrightarrow> remove_first pat (pat @ rest) = rest"
  by (cases pat) auto

lemma remove_first_absent: "\<not> sublist pat s \<Longrightarrow> remove_first pat s = s"
proof (induction s)
  case Nil
  show ?case by simp
next
  case (Cons c cs)
  have "\<not> prefix pat (c # cs)"
    using Cons.prems prefix_imp_sublist by blast
  moreover have "\<not> sublist pat cs"
    using Cons.prems by (meson sublist_Cons_right)
  ultimately show ?case using Cons.IH by simp
qed

subsection \<open>Extraction of the text\<close>


lemma extract_delta:
  "\<not> truthy (message_content j) \<Longrightarrow> delta_content j = Some (JString s) \<Longrightarrow> s \<noteq> [] \<Longrightarrow>
   extract_content j = Inr (remove_first marker s)"
  by (simp add: extract_content_def Let_def)

lemma extract_neither:
  "\<not> truthy (message_content j) \<Longrightarrow> \<not> truthy (delta_content j) \<Longrightarrow>
   extract_content j = Inl (Error ''Invalid response format from Livepeer'')"
  by (simp add: extract_content_def Let_def)

lemma gen_success:
  assumes "gen \<in> {callLivepeerLLM, TEXT_SMALL, TEXT_LARGE}"
    and "snd (gen js env rt p) = [req]"
    and "fetch rt req = Resolved res"
    and "ok res"
    and "json_body res = Some j"
  shows "fst (gen js env rt p) = extract_content j"
  using gen_trace [OF assms(1,2)] assms(3,4,5) by (simp add: handle_response_def)

subsection \<open>Which content field is returned\<close>

text \<open>What the two paths read of a body \<^verbatim>\<open>{"choices": [{...}, ...], ...}\<close>.\<close>

lemma content_paths:
  assumes "map_of obj ''choices'' = Some (JArray (JObject choice # others))"
  shows "message_content (JObject obj) = member ''content'' (map_of choice ''message'')"
    and "delta_content (JObject obj) = member ''content'' (map_of choice ''delta'')"
  using assms by (simp_all add: message_content_def delta_content_def)





text \<open>
  C9. A \<^verbatim>\<open>choices[0].message.content\<close> that is present but the empty string counts as absent:
  the call falls through to \<^verbatim>\<open>choices[0].delta.content\<close>, returns it when it is a non-empty
  string, and fails with the error "Invalid response format from Livepeer" when it is absent
  (no \<^verbatim>\<open>delta\<close> object, or one whose \<^verbatim>\<open>content\<close> is missing or \<^verbatim>\<open>null\<close>) or the empty string
  too.
\<close>

theorem empty_content_is_absent:
  assumes "gen \<in> {callLivepeerLLM, TEXT_SMALL, TEXT_LARGE}"
    and "snd (gen js env rt p) = [req]"
    and "fetch rt req = Resolved res"
    and "ok res"
    and "json_body res = Some (JObject obj)"
    and "map_of obj ''choices'' = Some (JArray (JObject choice # others))"
    and "map_of choice ''message'' = Some (JObject m)"
    and "map_of m ''content'' = Some (JString [])"
  shows "(\<forall>d s. map_of choice ''delta'' = Some (JObject d) \<longrightarrow>
               map_of d ''content'' = Some (JString s) \<longrightarrow> s \<noteq> [] \<longrightarrow>
               fst (gen js env rt p) = Inr (remove_first marker s))
       \<and> ((\<forall>d. map_of choice ''delta'' = Some (JObject d) \<longrightarrow>
               map_of d ''content'' = None \<or> map_of d ''content'' = Some JNull
               \<or> map_of d ''content'' = Some (JString [])) \<longrightarrow>
            fst (gen js env rt p) = Inl (Error ''Invalid response format from Livepeer''))"
proof (intro conjI allI impI)
  note out = gen_success [OF assms(1-5)]
  note paths = content_paths [OF assms(6)]
  have msg: "\<not> truthy (message_content (JObject obj))"
    using assms(7,8) by (simp add: paths)
  {
    fix d s
    assume "map_of choice ''delta'' = Some (JObject d)"
      and "map_of d ''content'' = Some (JString s)" and "s \<noteq> []"
    then have "delta_content (JObject obj) = Some (JString s)"
      by (simp add: paths)
    with msg \<open>s \<noteq> []\<close> show "fst (gen js env rt p) = Inr (remove_first marker s)"
      by (simp add: out extract_delta)
  next
    assume a: "\<forall>d. map_of choice ''delta'' = Some (JObject d) \<longrightarrow>
               map_of d ''content'' = None \<or> map_of d ''content'' = Some JNull
               \<or> map_of d ''content'' = Some (JString [])"
    have "\<not> truthy (delta_content (JObject obj))"
      unfolding paths
      using a by (cases "(''content'', map_of choice ''delta'')" rule: member.cases) auto
    with msg show "fst (gen js env rt p) = Inl (Error ''Invalid response format from Livepeer'')"
      by (simp add: out extract_neither)
  }
qed

theorem empty_content_is_absent_witness:
  "fst (TEXT_LARGE example_js example_env
          (example_runtime (Resolved (json_response (first_choice
             [(''message'', JObject [(''content'', JString [])]),
              (''delta'', JObject [(''content'', JString ''D'')])]))))
          example_params) = Inr ''D''
   \<and> fst (TEXT_LARGE example_js example_env
          (example_runtime (Resolved (json_response (first_choice
             [(''message'', JObject [(''content'', JString [])]),
              (''delta'', JObject [(''content'', JString [])])]))))
          example_params) = Inl (Error ''Invalid response format from Livepeer'')
   \<and> fst (TEXT_LARGE example_js example_env
          (example_runtime (Resolved (json_response (first_choice
             [(''message'', JObject [(''content'', JString [])])]))))
          example_params) = Inl (Error ''Invalid response format from Livepeer'')"
proof -
  let ?reply = "\<lambda>ms. example_runtime (Resolved (json_response (first_choice ms)))"
  have g: "TEXT_LARGE \<in> {callLivepeerLLM, TEXT_SMALL, TEXT_LARGE}"
    by simp
  have f: "fetch (?reply ms) q = Resolved (json_response (first_choice ms))" for ms q
    by (simp add: example_runtime_def)
  have k: "ok (json_response (first_choice ms))" for ms
    by (simp add: json_response_def)
  have b: "json_body (json_response (first_choice ms))
      = Some (JObject [(''choices'', JArray [JObject ms])])" for ms
    by (simp add: json_response_def first_choice_def)
  have c: "map_of [(''choices'', JArray [JObject ms])] ''choices''
      = Some (JArray (JObject ms # []))" for ms
    by simp
  have e: "map_of [(''content'', JString [])] ''content'' = Some (JString [])"
    by simp
  note t = empty_content_is_absent [OF g example_large_sent f k b c _ e]
  have "fst (TEXT_LARGE example_js example_env
          (?reply [(''message'', JObject [(''content'', JString [])]),
                   (''delta'', JObject [(''content'', JString ''D'')])])
          example_params) = Inr (remove_first marker ''D'')"
    by (rule t [THEN conjunct1, rule_format, where d = "[(''content'', JString ''D'')]"])
       simp_all
  moreover have "fst (TEXT_LARGE example_js example_env
          (?reply [(''message'', JObject [(''content'', JString [])]),
                   (''delta'', JObject [(''content'', JString [])])])
          example_params) = Inl (Error ''Invalid response format from Livepeer'')"
    by (rule t [THEN conjunct2, rule_format]) auto
  moreover have "fst (TEXT_LARGE example_js example_env
          (?reply [(''message'', JObject [(''content'', JString [])])])
          example_params) = Inl (Error ''Invalid response format from Livepeer'')"
    by (rule t [THEN conjunct2, rule_format]) auto
  ultimately show ?thesis
    by (simp add: marker_def)
qed


subsection \<open>The marker removal\<close>

text \<open>
  C1. The pattern of line 131 has no anchor, so the leftmost occurrence of the marker is
  removed wherever it stands (\<open>remove_first_prefix\<close> is the case of a text that begins with
  it, \<open>remove_first_absent\<close> the case of a text without it). A text that holds the marker
  after its start is therefore not returned unchanged: the reply \<^verbatim>\<open>"Hi "\<close>, marker,
  \<^verbatim>\<open>"there"\<close> comes back as \<^verbatim>\<open>"Hi there"\<close>.
\<close>

theorem marker_removed_inside_text:
  "fst (TEXT_LARGE example_js example_env
          (example_runtime (Resolved (json_response
             (first_choice [(''message'',
                JObject [(''content'', JString (''Hi '' @ marker @ ''there''))])]))))
          example_params) = Inr ''Hi there''"
  by (simp add: TEXT_LARGE_def call_sent example_defs resolve_endpoint_def str_or_def
      handle_response_def extract_content_def message_content_def delta_content_def
      marker_def Let_def)

subsection \<open>The request\<close>

lemma strip_trailing_slash_slash: "strip_trailing_slash (s @ ''/'') = s"
  by (simp add: strip_trailing_slash_def)

lemma strip_trailing_slash_other: "\<not> suffix ''/'' s \<Longrightarrow> strip_trailing_slash s = s"
  by (cases s rule: rev_cases) (auto simp: strip_trailing_slash_def suffix_def)

lemma authorization_cases:
  "(\<forall>k. env ''LIVEPEER_API_KEY'' = Some k \<and> k \<noteq> [] \<longrightarrow>
        authorization env rt = ''Bearer '' @ k)
   \<and> (\<forall>k. \<not> truthy_str (env ''LIVEPEER_API_KEY'')
          \<and> getSetting rt ''LIVEPEER_API_KEY'' = Some k \<and> k \<noteq> [] \<longrightarrow>
        authorization env rt = ''Bearer '' @ k)
   \<and> (\<not> truthy_str (env ''LIVEPEER_API_KEY'')
        \<and> \<not> truthy_str (getSetting rt ''LIVEPEER_API_KEY'') \<longrightarrow>
        authorization env rt = ''Bearer ElizaV2-llm-default'')"
  by (auto simp: authorization_def str_or_def)

lemma resolve_endpoint_cases:
  "(\<forall>e. env ''LIVEPEER_GATEWAY_URL'' = Some e \<and> e \<noteq> [] \<longrightarrow> resolve_endpoint env rt = Some e)
   \<and> (\<not> truthy_str (env ''LIVEPEER_GATEWAY_URL'') \<longrightarrow>
        resolve_endpoint env rt = getSetting rt ''LIVEPEER_GATEWAY_URL'')"
  by (auto simp: resolve_endpoint_def str_or_def)

text \<open>
  C8. Every request a call sends is its only one, and it is a POST to the resolved endpoint,
  without its final slash when it has one, followed by \<^verbatim>\<open>/llm\<close>. Its Authorization header
  is \<^verbatim>\<open>Bearer\<close>, a space, and the API key: the non-empty \<^verbatim>\<open>LIVEPEER_API_KEY\<close> of the environment,
  else the non-empty runtime setting of that name, else the literal \<^verbatim>\<open>ElizaV2-llm-default\<close>.
\<close>

theorem sent_request_shape:
  assumes "gen \<in> {callLivepeerLLM, TEXT_SMALL, TEXT_LARGE}"
    and "req \<in> set (snd (gen js env rt p))"
  shows "snd (gen js env rt p) = [req]
       \<and> http_method req = ''POST''
       \<and> (\<exists>e. resolve_endpoint env rt = Some e \<and> e \<noteq> []
              \<and> url req = strip_trailing_slash e @ ''/llm''
              \<and> (\<forall>s. e = s @ ''/'' \<longrightarrow> url req = s @ ''/llm'')
              \<and> (\<not> suffix ''/'' e \<longrightarrow> url req = e @ ''/llm''))
       \<and> (\<forall>k. env ''LIVEPEER_API_KEY'' = Some k \<and> k \<noteq> [] \<longrightarrow>
              map_of (headers req) ''Authorization'' = Some (''Bearer '' @ k))
       \<and> (\<forall>k. \<not> truthy_str (env ''LIVEPEER_API_KEY'')
              \<and> getSetting rt ''LIVEPEER_API_KEY'' = Some k \<and> k \<noteq> [] \<longrightarrow>
              map_of (headers req) ''Authorization'' = Some (''Bearer '' @ k))
       \<and> (\<not> truthy_str (env ''LIVEPEER_API_KEY'')
              \<and> \<not> truthy_str (getSetting rt ''LIVEPEER_API_KEY'') \<longrightarrow>
              map_of (headers req) ''Authorization'' = Some ''Bearer ElizaV2-llm-default'')"
proof -
  from gen_request [OF assms] obtain e b where
    e: "resolve_endpoint env rt = Some e" "e \<noteq> []" and
    req: "req = build_request env rt e b" and
    one: "snd (gen js env rt p) = [req]"
    by blast
  have auth: "map_of (headers req) ''Authorization'' = Some (authorization env rt)"
    by (simp add: req build_request_def)
  have u: "url req = strip_trailing_slash e @ ''/llm''"
    by (simp add: req build_request_def)
  have m: "http_method req = ''POST''"
    by (simp add: req build_request_def)
  have u1: "\<forall>s. e = s @ ''/'' \<longrightarrow> url req = s @ ''/llm''"
    using u strip_trailing_slash_slash by simp
  have u2: "\<not> suffix ''/'' e \<longrightarrow> url req = e @ ''/llm''"
    using u strip_trailing_slash_other by simp
  from e u u1 u2 have ex: "\<exists>e. resolve_endpoint env rt = Some e \<and> e \<noteq> []
              \<and> url req = strip_trailing_slash e @ ''/llm''
              \<and> (\<forall>s. e = s @ ''/'' \<longrightarrow> url req = s @ ''/llm'')
              \<and> (\<not> suffix ''/'' e \<longrightarrow> url req = e @ ''/llm'')"
    by blast
  show ?thesis
    using one m ex authorization_cases [of env rt] unfolding auth by simp
qed

theorem sent_request_shape_witness:
  "example_request (Num 512) (Num double_0_6)
     \<in> set (snd (TEXT_SMALL example_js example_env (example_runtime Rejected) example_params))
   \<and> url (example_request (Num 512) (Num double_0_6)) = ''https://gw.example/llm''
   \<and> http_method (example_request (Num 512) (Num double_0_6)) = ''POST''
   \<and> map_of (headers (example_request (Num 512) (Num double_0_6))) ''Authorization''
       = Some ''Bearer ElizaV2-llm-default''"
  using sent_request_shape [of TEXT_SMALL "example_request (Num 512) (Num double_0_6)"
      example_js example_env "example_runtime Rejected" example_params]
    example_small_sent [of Rejected]
  by (simp add: example_request_def)

lemma call_fields:
  "prompt q = prompt p \<Longrightarrow> maxTokens q = maxTokens p \<Longrightarrow> temperature q = temperature p \<Longrightarrow>
   callLivepeerLLM js env rt q = callLivepeerLLM js env rt p"
  by (cases "resolve_endpoint env rt") (simp_all add: callLivepeerLLM_def)

subsection \<open>The gateway endpoint\<close>

text \<open>
  C3, as the code has it. The endpoint is the non-empty \<^verbatim>\<open>LIVEPEER_GATEWAY_URL\<close> of the
  environment, else the non-empty runtime setting of that name; the request goes there. When
  neither is set or both are empty, the call fails with the error "Livepeer Gateway URL is
  not defined (LIVEPEER_GATEWAY_URL)" and sends no request. There is no explicit endpoint
  parameter: two parameter objects that agree on \<^verbatim>\<open>prompt\<close>, \<^verbatim>\<open>maxTokens\<close> and
  \<^verbatim>\<open>temperature\<close> give the same call, whatever else they hold.
\<close>

theorem endpoint_resolution:
  assumes "gen \<in> {callLivepeerLLM, TEXT_SMALL, TEXT_LARGE}"
  shows "(\<forall>e. env ''LIVEPEER_GATEWAY_URL'' = Some e \<and> e \<noteq> [] \<longrightarrow>
            map url (snd (gen js env rt (p :: 'a llm_params_scheme)))
              = [strip_trailing_slash e @ ''/llm''])
       \<and> (\<forall>e. \<not> truthy_str (env ''LIVEPEER_GATEWAY_URL'')
              \<and> getSetting rt ''LIVEPEER_GATEWAY_URL'' = Some e \<and> e \<noteq> [] \<longrightarrow>
            map url (snd (gen js env rt p)) = [strip_trailing_slash e @ ''/llm''])
       \<and> (\<not> truthy_str (env ''LIVEPEER_GATEWAY_URL'')
              \<and> \<not> truthy_str (getSetting rt ''LIVEPEER_GATEWAY_URL'') \<longrightarrow>
            gen js env rt p =
              (Inl (Error ''Livepeer Gateway URL is not defined (LIVEPEER_GATEWAY_URL)''), []))
       \<and> (\<forall>q. prompt q = prompt p \<and> maxTokens q = maxTokens p
              \<and> temperature q = temperature p \<longrightarrow>
            gen js env rt q = gen js env rt p)"
proof (intro conjI allI impI)
  obtain q :: llm_params where q: "gen js env rt p = callLivepeerLLM js env rt q"
    using gen_call [OF assms] by metis
  have sent: "map url (snd (gen js env rt p)) = [strip_trailing_slash e @ ''/llm'']"
    if "resolve_endpoint env rt = Some e" "e \<noteq> []" for e
    using that by (simp add: q call_sent Let_def build_request_def)
  {
    fix e
    assume "env ''LIVEPEER_GATEWAY_URL'' = Some e \<and> e \<noteq> []"
    then have "resolve_endpoint env rt = Some e" "e \<noteq> []"
      by (simp_all add: resolve_endpoint_def str_or_def)
    then show "map url (snd (gen js env rt p)) = [strip_trailing_slash e @ ''/llm'']"
      by (rule sent)
  next
    fix e
    assume "\<not> truthy_str (env ''LIVEPEER_GATEWAY_URL'')
              \<and> getSetting rt ''LIVEPEER_GATEWAY_URL'' = Some e \<and> e \<noteq> []"
    then have "resolve_endpoint env rt = Some e" "e \<noteq> []"
      by (simp_all add: resolve_endpoint_def str_or_def)
    then show "map url (snd (gen js env rt p)) = [strip_trailing_slash e @ ''/llm'']"
      by (rule sent)
  next
    assume "\<not> truthy_str (env ''LIVEPEER_GATEWAY_URL'')
              \<and> \<not> truthy_str (getSetting rt ''LIVEPEER_GATEWAY_URL'')"
    then have "\<not> truthy_str (resolve_endpoint env rt)"
      by (simp add: resolve_endpoint_def str_or_def)
    then show "gen js env rt p =
        (Inl (Error ''Livepeer Gateway URL is not defined (LIVEPEER_GATEWAY_URL)''), [])"
      by (simp add: q call_no_endpoint)
  next
    fix q' :: "'a llm_params_scheme"
    assume eq: "prompt q' = prompt p \<and> maxTokens q' = maxTokens p
              \<and> temperature q' = temperature p"
    from assms consider "gen = callLivepeerLLM" | "gen = TEXT_SMALL" | "gen = TEXT_LARGE"
      by auto
    then show "gen js env rt q' = gen js env rt p"
    proof cases
      case 1
      show ?thesis unfolding 1 using eq by (intro call_fields) simp_all
    next
      case 2
      with eq show ?thesis by (simp add: TEXT_SMALL_def)
    next
      case 3
      with eq show ?thesis by (simp add: TEXT_LARGE_def)
    qed
  }
qed

theorem endpoint_resolution_witness:
  "map url (snd (TEXT_LARGE example_js example_env (example_runtime Rejected) example_params))
     = [''https://gw.example/llm'']
   \<and> map url (snd (TEXT_LARGE example_js Map.empty
        \<lparr> getSetting = [''LIVEPEER_GATEWAY_URL'' \<mapsto> ''http://s''],
          character_system = None, fetch = (\<lambda>req. Rejected) \<rparr>
        example_params)) = [''http://s/llm'']
   \<and> TEXT_LARGE example_js Map.empty (example_runtime Rejected) example_params
     = (Inl (Error ''Livepeer Gateway URL is not defined (LIVEPEER_GATEWAY_URL)''), [])"
  using endpoint_resolution [of TEXT_LARGE example_env example_js "example_runtime Rejected" example_params,
      THEN conjunct1, rule_format, of "''https://gw.example/''"]
    endpoint_resolution [of TEXT_LARGE Map.empty example_js
      "\<lparr> getSetting = [''LIVEPEER_GATEWAY_URL'' \<mapsto> ''http://s''],
          character_system = None, fetch = (\<lambda>req. Rejected) \<rparr>"
      example_params, THEN conjunct2, THEN conjunct1, rule_format, of "''http://s''"]
    endpoint_resolution [of TEXT_LARGE Map.empty example_js "example_runtime Rejected" example_params,
      THEN conjunct2, THEN conjunct2, THEN conjunct1]
  by (simp add: example_env_def example_runtime_def strip_trailing_slash_def)

text \<open>
  Against C3 as the specification words it: a parameter object with a gateway URL of its own,
  no URL in the environment and none in the settings. The call fails and sends nothing.
\<close>

theorem explicit_endpoint_ignored:
  "TEXT_LARGE example_js Map.empty (example_runtime Rejected)
     \<lparr> prompt = ''Hi'', maxTokens = None, temperature = None,
       gatewayUrl = ''https://gw.example/'' \<rparr>
   = (Inl (Error ''Livepeer Gateway URL is not defined (LIVEPEER_GATEWAY_URL)''), [])"
  by (simp add: TEXT_LARGE_def call_no_endpoint resolve_endpoint_def str_or_def
      example_runtime_def)

subsection \<open>Token budget, temperature and model\<close>

lemma double_0_6_nearest: "\<bar>double_0_6 - 6 / 10\<bar> < 1 / 2 ^ 54"
  by (simp add: double_0_6_def)

lemma small_sent:
  "TEXT_SMALL js env rt p =
     (case resolve_endpoint env rt of
        None \<Rightarrow> (Inl (Error ''Livepeer Gateway URL is not defined (LIVEPEER_GATEWAY_URL)''), [])
      | Some e \<Rightarrow>
          if e = [] then (Inl (Error ''Livepeer Gateway URL is not defined (LIVEPEER_GATEWAY_URL)''), [])
          else (let req = build_request env rt e (requestBody env rt (prompt p)
                     (num_or (maxTokens p)
                        (env_or_default (parseInt js) (env ''LIVEPEER_MAX_TOKENS'') (Num 512)))
                     (num_or (temperature p)
                        (env_or_default (parseFloat js) (env ''LIVEPEER_TEMPERATURE'')
                           (Num double_0_6))))
                in ((case fetch rt req of Rejected \<Rightarrow> Inl FetchRejected
                     | Resolved res \<Rightarrow> handle_response res), [req])))"
  by (cases "resolve_endpoint env rt") (simp_all add: TEXT_SMALL_def call_sent)

lemma large_sent:
  "TEXT_LARGE js env rt p =
     (case resolve_endpoint env rt of
        None \<Rightarrow> (Inl (Error ''Livepeer Gateway URL is not defined (LIVEPEER_GATEWAY_URL)''), [])
      | Some e \<Rightarrow>
          if e = [] then (Inl (Error ''Livepeer Gateway URL is not defined (LIVEPEER_GATEWAY_URL)''), [])
          else (let req = build_request env rt e (requestBody env rt (prompt p)
                     (num_or (maxTokens p)
                        (env_or_default (parseInt js) (env ''LIVEPEER_MAX_TOKENS'') (Num 2048)))
                     (num_or (temperature p)
                        (env_or_default (parseFloat js) (env ''LIVEPEER_TEMPERATURE'')
                           (Num double_0_6))))
                in ((case fetch rt req of Rejected \<Rightarrow> Inl FetchRejected
                     | Resolved res \<Rightarrow> handle_response res), [req])))"
  by (cases "resolve_endpoint env rt") (simp_all add: TEXT_LARGE_def call_sent)

lemma handler_numbers:
  "(\<forall>req \<in> set (snd (TEXT_SMALL js env rt p)).
      body_max_tokens (body req) =
        num_or (maxTokens p) (env_or_default (parseInt js) (env ''LIVEPEER_MAX_TOKENS'') (Num 512))
      \<and> body_temperature (body req) =
        num_or (temperature p)
          (env_or_default (parseFloat js) (env ''LIVEPEER_TEMPERATURE'') (Num double_0_6)))
   \<and> (\<forall>req \<in> set (snd (TEXT_LARGE js env rt p)).
      body_max_tokens (body req) =
        num_or (maxTokens p) (env_or_default (parseInt js) (env ''LIVEPEER_MAX_TOKENS'') (Num 2048))
      \<and> body_temperature (body req) =
        num_or (temperature p)
          (env_or_default (parseFloat js) (env ''LIVEPEER_TEMPERATURE'') (Num double_0_6)))"
  by (auto simp: small_sent large_sent Let_def build_request_def requestBody_def
      split: option.splits if_splits)

lemma resolution_order:
  "(truthy_num a \<longrightarrow> num_or (Some a) (env_or_default parse v d) = a)
   \<and> (\<not> truthy_num a \<longrightarrow> num_or (Some a) (env_or_default parse v d) = env_or_default parse v d)
   \<and> num_or None (env_or_default parse v d) = env_or_default parse v d
   \<and> (s \<noteq> [] \<longrightarrow> env_or_default parse (Some s) d = parse s)
   \<and> env_or_default parse (Some []) d = d
   \<and> env_or_default parse None d = d"
  by simp

text \<open>
  C2. The handlers take an explicit argument with \<^verbatim>\<open>||\<close>, so an explicit \<open>0\<close> counts as not
  given (\<open>resolution_order\<close> lists the cases): an explicit temperature \<open>0\<close> is sent as
  \<open>0.6\<close> by both handlers, while \<^verbatim>\<open>callLivepeerLLM\<close> itself, whose defaults apply to an
  undefined argument only, sends \<open>0\<close>.
\<close>

theorem explicit_zero_temperature_replaced:
  "map (body_temperature \<circ> body)
     (snd (TEXT_SMALL example_js example_env (example_runtime Rejected)
        \<lparr> prompt = ''Hi'', maxTokens = None, temperature = Some (Num 0) \<rparr>)) = [Num double_0_6]
   \<and> map (body_temperature \<circ> body)
     (snd (TEXT_LARGE example_js example_env (example_runtime Rejected)
        \<lparr> prompt = ''Hi'', maxTokens = None, temperature = Some (Num 0) \<rparr>)) = [Num double_0_6]
   \<and> map (body_temperature \<circ> body)
     (snd (callLivepeerLLM example_js example_env (example_runtime Rejected)
        \<lparr> prompt = ''Hi'', maxTokens = None, temperature = Some (Num 0) \<rparr>)) = [Num 0]"
  by (simp add: small_sent large_sent call_sent example_defs resolve_endpoint_def str_or_def
      build_request_def requestBody_def Let_def)

lemma resolve_model_cases:
  "(\<forall>m. env ''LIVEPEER_LARGE_MODEL'' = Some m \<and> m \<noteq> [] \<longrightarrow> resolve_model env = m)
   \<and> (\<forall>m. \<not> truthy_str (env ''LIVEPEER_LARGE_MODEL'')
          \<and> env ''LIVEPEER_MODEL'' = Some m \<and> m \<noteq> [] \<longrightarrow> resolve_model env = m)
   \<and> (\<not> truthy_str (env ''LIVEPEER_LARGE_MODEL'') \<and> \<not> truthy_str (env ''LIVEPEER_MODEL'') \<longrightarrow>
        resolve_model env = ''meta-llama/Meta-Llama-3.1-8B-Instruct'')"
  by (auto simp: resolve_model_def str_or_def)

text \<open>
  What the two handlers share. The requests of the large handler are those of the small
  handler with \<^verbatim>\<open>max_tokens\<close> replaced, so the two agree on the URL, the headers and every
  other field of the body. With a truthy explicit \<^verbatim>\<open>maxTokens\<close> or a non-empty
  \<^verbatim>\<open>LIVEPEER_MAX_TOKENS\<close> the two calls are equal. Both send the model of
  \<^verbatim>\<open>LIVEPEER_LARGE_MODEL\<close>, else of \<^verbatim>\<open>LIVEPEER_MODEL\<close>, else the hardcoded default.
\<close>

lemma handlers_agree:
  "snd (TEXT_LARGE js env rt p) =
     map (\<lambda>req. req \<lparr> body := (body req) \<lparr> body_max_tokens :=
             num_or (maxTokens p)
               (env_or_default (parseInt js) (env ''LIVEPEER_MAX_TOKENS'') (Num 2048)) \<rparr> \<rparr>)
       (snd (TEXT_SMALL js env rt p))
   \<and> (\<forall>req \<in> set (snd (TEXT_SMALL js env rt p)).
         body_max_tokens (body req) =
           num_or (maxTokens p)
             (env_or_default (parseInt js) (env ''LIVEPEER_MAX_TOKENS'') (Num 512)))
   \<and> ((\<exists>m. maxTokens p = Some m \<and> truthy_num m) \<or> truthy_str (env ''LIVEPEER_MAX_TOKENS'') \<longrightarrow>
         TEXT_SMALL js env rt p = TEXT_LARGE js env rt p)
   \<and> (\<forall>req \<in> set (snd (TEXT_SMALL js env rt p)) \<union> set (snd (TEXT_LARGE js env rt p)).
         (\<forall>m. env ''LIVEPEER_LARGE_MODEL'' = Some m \<and> m \<noteq> [] \<longrightarrow> body_model (body req) = m)
       \<and> (\<forall>m. \<not> truthy_str (env ''LIVEPEER_LARGE_MODEL'')
              \<and> env ''LIVEPEER_MODEL'' = Some m \<and> m \<noteq> [] \<longrightarrow> body_model (body req) = m)
       \<and> (\<not> truthy_str (env ''LIVEPEER_LARGE_MODEL'') \<and> \<not> truthy_str (env ''LIVEPEER_MODEL'') \<longrightarrow>
              body_model (body req) = ''meta-llama/Meta-Llama-3.1-8B-Instruct''))"
proof (intro conjI)
  show "snd (TEXT_LARGE js env rt p) =
     map (\<lambda>req. req \<lparr> body := (body req) \<lparr> body_max_tokens :=
             num_or (maxTokens p)
               (env_or_default (parseInt js) (env ''LIVEPEER_MAX_TOKENS'') (Num 2048)) \<rparr> \<rparr>)
       (snd (TEXT_SMALL js env rt p))"
    by (cases "resolve_endpoint env rt")
       (simp_all add: small_sent large_sent Let_def build_request_def requestBody_def)
  show "\<forall>req \<in> set (snd (TEXT_SMALL js env rt p)).
         body_max_tokens (body req) =
           num_or (maxTokens p)
             (env_or_default (parseInt js) (env ''LIVEPEER_MAX_TOKENS'') (Num 512))"
    using handler_numbers [of js env rt p] by simp
  show "(\<exists>m. maxTokens p = Some m \<and> truthy_num m) \<or> truthy_str (env ''LIVEPEER_MAX_TOKENS'') \<longrightarrow>
         TEXT_SMALL js env rt p = TEXT_LARGE js env rt p"
  proof
    assume "(\<exists>m. maxTokens p = Some m \<and> truthy_num m) \<or> truthy_str (env ''LIVEPEER_MAX_TOKENS'')"
    then have "num_or (maxTokens p)
             (env_or_default (parseInt js) (env ''LIVEPEER_MAX_TOKENS'') (Num 512))
        = num_or (maxTokens p)
             (env_or_default (parseInt js) (env ''LIVEPEER_MAX_TOKENS'') (Num 2048))"
      by (cases "env ''LIVEPEER_MAX_TOKENS''") auto
    then show "TEXT_SMALL js env rt p = TEXT_LARGE js env rt p"
      by (simp add: TEXT_SMALL_def TEXT_LARGE_def)
  qed
  have model: "body_model (body req) = resolve_model env"
    if "req \<in> set (snd (TEXT_SMALL js env rt p)) \<union> set (snd (TEXT_LARGE js env rt p))" for req
    using that
    by (auto simp: small_sent large_sent Let_def build_request_def requestBody_def
        split: option.splits if_splits)
  show "\<forall>req \<in> set (snd (TEXT_SMALL js env rt p)) \<union> set (snd (TEXT_LARGE js env rt p)).
         (\<forall>m. env ''LIVEPEER_LARGE_MODEL'' = Some m \<and> m \<noteq> [] \<longrightarrow> body_model (body req) = m)
       \<and> (\<forall>m. \<not> truthy_str (env ''LIVEPEER_LARGE_MODEL'')
              \<and> env ''LIVEPEER_MODEL'' = Some m \<and> m \<noteq> [] \<longrightarrow> body_model (body req) = m)
       \<and> (\<not> truthy_str (env ''LIVEPEER_LARGE_MODEL'') \<and> \<not> truthy_str (env ''LIVEPEER_MODEL'') \<longrightarrow>
              body_model (body req) = ''meta-llama/Meta-Llama-3.1-8B-Instruct'')"
    using model resolve_model_cases [of env] by simp
qed


text \<open>
  C10. With both arguments explicit the two handlers should build the same request body. They
  take \<^verbatim>\<open>maxTokens\<close> with \<^verbatim>\<open>||\<close>, so an explicit \<open>0\<close> counts as not given and each handler falls
  back to its own default: for \<^verbatim>\<open>maxTokens = 0\<close>, \<^verbatim>\<open>temperature = 0.5\<close> and no
  \<^verbatim>\<open>LIVEPEER_MAX_TOKENS\<close> the small handler sends 512, the large one 2048, and the bodies differ.
  For every truthy explicit \<^verbatim>\<open>maxTokens\<close> the two calls are equal (\<open>handlers_agree\<close>).
\<close>

theorem explicit_zero_max_tokens_bodies_differ:
  "map (body_max_tokens \<circ> body)
     (snd (TEXT_SMALL example_js example_env (example_runtime Rejected)
        \<lparr> prompt = ''Hi'', maxTokens = Some (Num 0), temperature = Some (Num (1 / 2)) \<rparr>))
     = [Num 512]
   \<and> map (body_max_tokens \<circ> body)
     (snd (TEXT_LARGE example_js example_env (example_runtime Rejected)
        \<lparr> prompt = ''Hi'', maxTokens = Some (Num 0), temperature = Some (Num (1 / 2)) \<rparr>))
     = [Num 2048]
   \<and> map body
     (snd (TEXT_SMALL example_js example_env (example_runtime Rejected)
        \<lparr> prompt = ''Hi'', maxTokens = Some (Num 0), temperature = Some (Num (1 / 2)) \<rparr>))
     \<noteq> map body
     (snd (TEXT_LARGE example_js example_env (example_runtime Rejected)
        \<lparr> prompt = ''Hi'', maxTokens = Some (Num 0), temperature = Some (Num (1 / 2)) \<rparr>))"
  by (simp add: small_sent large_sent example_defs resolve_endpoint_def str_or_def
      build_request_def requestBody_def Let_def)

subsection \<open>The embedding placeholder\<close>

lemma trim_empty_iff: "trim s = [] \<longleftrightarrow> list_all is_space s"
proof
  let ?d = "dropWhile is_space s"
  assume "trim s = []"
  then have "dropWhile is_space (rev ?d) = []"
    by (simp add: trim_def)
  then have all: "\<forall>x \<in> set ?d. is_space x"
    by (simp only: dropWhile_eq_Nil_conv set_rev)
  have "?d = []"
  proof (rule ccontr)
    assume ne: "?d \<noteq> []"
    from hd_dropWhile [OF ne] have "\<not> is_space (hd ?d)" .
    moreover from ne have "hd ?d \<in> set ?d"
      by (rule hd_in_set)
    ultimately show False
      using all by blast
  qed
  then show "list_all is_space s"
    by (simp only: dropWhile_eq_Nil_conv list_all_iff)
next
  assume "list_all is_space s"
  then have "dropWhile is_space s = []"
    by (simp only: dropWhile_eq_Nil_conv list_all_iff)
  then show "trim s = []"
    by (simp only: trim_def rev.simps dropWhile.simps)
qed

lemma embed_loop_foldl:
  "embed_loop num s i vec =
     foldl (\<lambda>vec i. vec[i mod DIMS := vec ! (i mod DIMS) + num (unat (s ! i)) / num 65535])
       vec [i..<length s]"
proof (induction num s i vec rule: embed_loop.induct)
  case (1 num s i vec)
  show ?case
  proof (cases "i < length s")
    case True
    then have "[i..<length s] = i # [i + 1..<length s]"
      by (simp add: upt_conv_Cons)
    with True "1.IH" [OF True refl] show ?thesis
      by (subst embed_loop.simps) (simp add: Let_def)
  next
    case False
    then show ?thesis
      by (subst embed_loop.simps) simp
  qed
qed


lemma embed_loop_entries:
  "length vec = DIMS \<Longrightarrow>
   embed_loop num s i vec =
     map (\<lambda>k. foldl (+) (vec ! k)
                (map (\<lambda>j. num (unat (s ! j)) / num 65535)
                   (filter (\<lambda>j. j mod DIMS = k) [i..<length s])))
       [0..<DIMS]"
proof (induction num s i vec rule: embed_loop.induct)
  case (1 num s i vec)
  show ?case
  proof (cases "i < length s")
    case True
    let ?t = "\<lambda>j. num (unat (s ! j)) / num 65535"
    let ?vec = "vec[i mod DIMS := vec ! (i mod DIMS) + ?t i]"
    have up: "[i..<length s] = i # [i + 1..<length s]"
      using True by (simp add: upt_conv_Cons)
    have len: "length ?vec = DIMS"
      using "1.prems" by simp
    have "embed_loop num s i vec = embed_loop num s (i + 1) ?vec"
      using True by (subst embed_loop.simps) (simp add: Let_def)
    also have "\<dots> = map (\<lambda>k. foldl (+) (?vec ! k)
                (map ?t (filter (\<lambda>j. j mod DIMS = k) [i + 1..<length s]))) [0..<DIMS]"
      using "1.IH" [OF True refl len] .
    also have "\<dots> = map (\<lambda>k. foldl (+) (vec ! k)
                (map ?t (filter (\<lambda>j. j mod DIMS = k) [i..<length s]))) [0..<DIMS]"
    proof (rule map_cong [OF refl])
      fix k
      assume "k \<in> set [0..<DIMS]"
      then have k: "k < length vec"
        using "1.prems" by simp
      show "foldl (+) (?vec ! k) (map ?t (filter (\<lambda>j. j mod DIMS = k) [i + 1..<length s]))
          = foldl (+) (vec ! k) (map ?t (filter (\<lambda>j. j mod DIMS = k) [i..<length s]))"
        using k unfolding up by (simp add: nth_list_update)
    qed
    finally show ?thesis .
  next
    case False
    then have "embed_loop num s i vec = vec"
      by (subst embed_loop.simps) simp
    also have "\<dots> = map (\<lambda>k. vec ! k) [0..<DIMS]"
      using "1.prems" map_nth [of vec] by simp
    finally show ?thesis
      using False by simp
  qed
qed


lemma replicate_384: "replicate 384 z = z # z # replicate 382 z"
proof -
  have "(384::nat) = Suc (Suc 382)" by simp
  then show ?thesis by (simp only: replicate.simps)
qed




lemma embed_text:
  assumes "\<not> list_all is_space s"
    and "params = ParamsString s \<or> params = ParamsObject (TextOf s)"
  shows "TEXT_EMBEDDING num params = embed_loop num s 0 (replicate DIMS 0)"
proof -
  from assms(1) have "s \<noteq> []" by auto
  moreover from assms(1) have "trim s \<noteq> []" by (simp add: trim_empty_iff)
  ultimately show ?thesis
    using assms(2) by (auto simp: TEXT_EMBEDDING_def Let_def)
qed

lemma embed_blank:
  assumes "list_all is_space s"
  shows "TEXT_EMBEDDING num (ParamsString s) = replicate 384 0"
    and "TEXT_EMBEDDING num (ParamsObject (TextOf s)) = replicate 384 0"
  using assms by (simp_all add: TEXT_EMBEDDING_def Let_def trim_empty_iff DIMS_def)

text \<open>
  C6. \<^verbatim>\<open>null\<close>, the empty string and an object without a \<^verbatim>\<open>text\<close> member all give the vector of
  384 zeros, and so does every input whose \<^verbatim>\<open>text\<close> is nullish and every text, passed as a string
  or as the \<^verbatim>\<open>text\<close> member, that consists of white space only.
\<close>

theorem blank_input_embeds_to_zero:
  "TEXT_EMBEDDING num ParamsNull = replicate 384 0
   \<and> TEXT_EMBEDDING num (ParamsString []) = replicate 384 0
   \<and> TEXT_EMBEDDING num (ParamsObject NoText) = replicate 384 0
   \<and> TEXT_EMBEDDING num (ParamsObject NullishText) = replicate 384 0
   \<and> (\<forall>s. list_all is_space s \<longrightarrow>
         TEXT_EMBEDDING num (ParamsString s) = replicate 384 0
       \<and> TEXT_EMBEDDING num (ParamsObject (TextOf s)) = replicate 384 0)"
  using embed_blank [of _ num]
  by (simp add: TEXT_EMBEDDING_def DIMS_def trim_def)

theorem blank_input_embeds_to_zero_witness:
  "list_all is_space [0x20, 0x0A, 0x09]
   \<and> TEXT_EMBEDDING (of_nat :: nat \<Rightarrow> rat) (ParamsString [0x20, 0x0A, 0x09]) = replicate 384 0
   \<and> TEXT_EMBEDDING (of_nat :: nat \<Rightarrow> rat) ParamsNull
       = TEXT_EMBEDDING of_nat (ParamsString [])
   \<and> TEXT_EMBEDDING (of_nat :: nat \<Rightarrow> rat) (ParamsString [])
       = TEXT_EMBEDDING of_nat (ParamsObject NoText)"
  using blank_input_embeds_to_zero [of "of_nat :: nat \<Rightarrow> rat"]
  by (simp add: is_space_def)

text \<open>
  C7. For a text that is not white space only, passed as a string or as the \<^verbatim>\<open>text\<close> member,
  the result is the vector of the specification: it has 384 entries, and entry \<open>k\<close> is obtained
  from \<open>0\<close> by adding \<^verbatim>\<open>charCode(i) / 65535\<close> for the positions \<open>i\<close> with \<open>i mod 384 = k\<close>, in
  increasing order. For \<^verbatim>\<open>"AB"\<close> entry 0 is \<open>0 + 65 / 65535\<close>, entry 1 is \<open>0 + 66 / 65535\<close> and
  the other 382 entries are \<open>0\<close>. Sum and quotient are uninterpreted, so the equations fix the
  operations performed and their order, and with them the doubles computed.
\<close>

theorem embedding_accumulates:
  assumes "\<not> list_all is_space s"
    and "params = ParamsString s \<or> params = ParamsObject (TextOf s)"
  shows "TEXT_EMBEDDING num params = spec_embed num s
       \<and> length (TEXT_EMBEDDING num params) = 384
       \<and> (\<forall>k < 384. TEXT_EMBEDDING num params ! k =
             foldl (+) 0 (map (\<lambda>i. num (unat (s ! i)) / num 65535)
                            (filter (\<lambda>i. i mod 384 = k) [0..<length s])))
       \<and> TEXT_EMBEDDING num (ParamsString [0x41, 0x42]) =
             (0 + num 65 / num 65535) # (0 + num 66 / num 65535) # replicate 382 0"
proof (intro conjI)
  note e = embed_text [OF assms, of num]
  show "TEXT_EMBEDDING num params = spec_embed num s"
    by (simp add: e embed_loop_foldl spec_embed_def DIMS_def)
  have entries: "TEXT_EMBEDDING num params =
      map (\<lambda>k. foldl (+) 0 (map (\<lambda>i. num (unat (s ! i)) / num 65535)
                            (filter (\<lambda>i. i mod 384 = k) [0..<length s]))) [0..<384]"
    unfolding e
    by (subst embed_loop_entries) (simp_all add: DIMS_def cong: map_cong)
  show "length (TEXT_EMBEDDING num params) = 384"
    unfolding entries by simp
  show "\<forall>k < 384. TEXT_EMBEDDING num params ! k =
             foldl (+) 0 (map (\<lambda>i. num (unat (s ! i)) / num 65535)
                            (filter (\<lambda>i. i mod 384 = k) [0..<length s]))"
    unfolding entries by simp
  show "TEXT_EMBEDDING num (ParamsString [0x41, 0x42]) =
             (0 + num 65 / num 65535) # (0 + num 66 / num 65535) # replicate 382 0"
    by (simp add: TEXT_EMBEDDING_def trim_def is_space_def DIMS_def Let_def replicate_384
        embed_loop.simps)
qed

theorem embedding_accumulates_witness:
  "\<not> list_all is_space [0x41, 0x42]
   \<and> TEXT_EMBEDDING (of_nat :: nat \<Rightarrow> rat) (ParamsString [0x41, 0x42]) ! 0 = 65 / 65535
   \<and> TEXT_EMBEDDING (of_nat :: nat \<Rightarrow> rat) (ParamsString [0x41, 0x42]) ! 1 = 66 / 65535
   \<and> TEXT_EMBEDDING (of_nat :: nat \<Rightarrow> rat) (ParamsString [0x41, 0x42]) ! 2 = 0
   \<and> length (TEXT_EMBEDDING (of_nat :: nat \<Rightarrow> rat) (ParamsString [0x41, 0x42])) = 384"
proof -
  have h: "\<not> list_all is_space [0x41, 0x42]"
    by (simp add: is_space_def)
  note t = embedding_accumulates [OF h disjI1 [OF refl], of "of_nat :: nat \<Rightarrow> rat"]
  show ?thesis
    using h t [THEN conjunct2, THEN conjunct1]
      t [THEN conjunct2, THEN conjunct2, THEN conjunct1]
    by simp
qed

end
